theory Spec2Isabelle
  imports Complex_Main
begin

section \<open>MIDItoOBS: the dispatcher and reply resolver of \<open>main.py\<close>\<close>

text \<open>
  The embedding follows \<^verbatim>\<open>src/main.py\<close> function by function. What the code does
  besides returning is explicit:
  \<^item> the handler object's mutable fields (\<^verbatim>\<open>_action_buffer\<close>, \<^verbatim>\<open>_action_counter\<close>) are a
    record that every operation takes and returns; the messages handed to
    \<^verbatim>\<open>obs_socket.send\<close> are appended to the field \<open>sent\<close> of the same record;
  \<^item> an exception that leaves a handler is the result \<open>Raised e h\<close>, with the state
    \<open>h\<close> as the handler left it;
  \<^item> the built-in operations of Python whose results the code does not determine (string
    formatting, \<^verbatim>\<open>int\<close> on a string, the arithmetic of floats) are a parameter of the
    handlers that call them.
\<close>

subsection \<open>Values\<close>

datatype py_error =
  KeyError | IndexError | TypeError | ValueError | ZeroDivisionError | OverflowError

text \<open>
  A Python float, given by its value: a finite non-zero float and \<open>+0.0\<close> by the
  rational it is, and the negative zero, the infinities and NaN. A number of the
  configuration, or a result of the arithmetic, is an \<^verbatim>\<open>int\<close> or a \<^verbatim>\<open>float\<close>.
\<close>

datatype pyfloat = Finite rat | NegZero | PosInf | NegInf | NaN

datatype pynum = PInt int | PFloat pyfloat

text \<open>A decoded JSON value, as \<^verbatim>\<open>json.loads\<close> returns it (an object as its items).\<close>

datatype json =
    JNull
  | JBool bool
  | JInt int
  | JFloat pyfloat
  | JString string
  | JArray "json list"
  | JObject "(string \<times> json) list"

fun json_of :: "pynum \<Rightarrow> json" where
  "json_of (PInt n) = JInt n"
| "json_of (PFloat x) = JFloat x"

fun is_zero :: "pyfloat \<Rightarrow> bool" where
  "is_zero (Finite x) = (x = 0)"
| "is_zero NegZero = True"
| "is_zero PosInf = False"
| "is_zero NegInf = False"
| "is_zero NaN = False"

text \<open>Python's truth value of a decoded JSON value.\<close>

fun truthy :: "json \<Rightarrow> bool" where
  "truthy JNull = False"
| "truthy (JBool b) = b"
| "truthy (JInt n) = (n \<noteq> 0)"
| "truthy (JFloat x) = (\<not> is_zero x)"
| "truthy (JString s) = (s \<noteq> [])"
| "truthy (JArray xs) = (xs \<noteq> [])"
| "truthy (JObject kvs) = (kvs \<noteq> [])"

text \<open>
  \<^verbatim>\<open>int(x)\<close> on a float: the value truncated toward zero; an infinity raises
  \<^verbatim>\<open>OverflowError\<close> and NaN raises \<^verbatim>\<open>ValueError\<close>.
\<close>

definition py_trunc :: "rat \<Rightarrow> int" where
  "py_trunc x = (if 0 \<le> x then \<lfloor>x\<rfloor> else \<lceil>x\<rceil>)"

fun float_int :: "pyfloat \<Rightarrow> py_error + int" where
  "float_int (Finite x) = Inr (py_trunc x)"
| "float_int NegZero = Inr 0"
| "float_int PosInf = Inl OverflowError"
| "float_int NegInf = Inl OverflowError"
| "float_int NaN = Inl ValueError"

subsection \<open>Built-in operations taken as a parameter\<close>

text \<open>
  \<^item> \<open>percent_error t v\<close>: the exception, if any, that \<^verbatim>\<open>t % v\<close> raises for an action
    template \<open>t\<close> of the configuration (a template without a slot, or with a slot that
    does not take the value, raises \<^verbatim>\<open>TypeError\<close> or \<^verbatim>\<open>ValueError\<close>). The two request
    templates of the program take an integer and a string, and formatting them does not
    raise.
  \<^item> \<open>int_of_str s\<close>: \<^verbatim>\<open>int(s)\<close> on a string, an integer or \<^verbatim>\<open>ValueError\<close>.
  \<^item> \<open>int_to_float n\<close>: the conversion of an \<^verbatim>\<open>int\<close> operand that meets a float; it
    raises \<^verbatim>\<open>OverflowError\<close> on an integer that is too large.
  \<^item> \<open>int_truediv a b\<close>: the true division \<^verbatim>\<open>a / b\<close> of two integers, \<open>b\<close> not zero.
  \<^item> \<open>float_add\<close>, \<open>float_sub\<close>, \<open>float_mul\<close>, and \<open>float_truediv\<close> on a divisor that
    is not zero: the rounded results, which may be infinite or NaN; they do not raise.
  \<^item> \<open>float_pow x y\<close>: \<^verbatim>\<open>x ** y\<close> on floats, which raises \<^verbatim>\<open>OverflowError\<close> when the
    result is out of range.
\<close>

record builtins =
  percent_error :: "string \<Rightarrow> json \<Rightarrow> py_error option"
  int_of_str :: "string \<Rightarrow> py_error + int"
  int_to_float :: "int \<Rightarrow> py_error + pyfloat"
  int_truediv :: "int \<Rightarrow> int \<Rightarrow> py_error + pyfloat"
  float_add :: "pyfloat \<Rightarrow> pyfloat \<Rightarrow> pyfloat"
  float_sub :: "pyfloat \<Rightarrow> pyfloat \<Rightarrow> pyfloat"
  float_mul :: "pyfloat \<Rightarrow> pyfloat \<Rightarrow> pyfloat"
  float_truediv :: "pyfloat \<Rightarrow> pyfloat \<Rightarrow> pyfloat"
  float_pow :: "pyfloat \<Rightarrow> pyfloat \<Rightarrow> py_error + pyfloat"

text \<open>\<^verbatim>\<open>int(v)\<close> on a decoded JSON value.\<close>

fun py_int :: "builtins \<Rightarrow> json \<Rightarrow> py_error + int" where
  "py_int py (JInt n) = Inr n"
| "py_int py (JBool b) = Inr (if b then 1 else 0)"
| "py_int py (JFloat x) = float_int x"
| "py_int py (JString s) = int_of_str py s"
| "py_int py JNull = Inl TypeError"
| "py_int py (JArray xs) = Inl TypeError"
| "py_int py (JObject kvs) = Inl TypeError"

subsection \<open>Arithmetic on numbers\<close>

text \<open>
  A binary operator on two integers is the exact operation on integers; when one operand
  is a float the other is converted and the operation is that of floats. The true
  division raises \<^verbatim>\<open>ZeroDivisionError\<close> on a zero divisor.
\<close>

fun as_float :: "builtins \<Rightarrow> pynum \<Rightarrow> py_error + pyfloat" where
  "as_float py (PInt n) = int_to_float py n"
| "as_float py (PFloat x) = Inr x"

fun binop ::
  "builtins \<Rightarrow> (int \<Rightarrow> int \<Rightarrow> int) \<Rightarrow> (pyfloat \<Rightarrow> pyfloat \<Rightarrow> pyfloat) \<Rightarrow> pynum \<Rightarrow> pynum
     \<Rightarrow> py_error + pynum" where
  "binop py on_int on_float (PInt a) (PInt b) = Inr (PInt (on_int a b))"
| "binop py on_int on_float a b =
     (case as_float py a of
        Inl e \<Rightarrow> Inl e
      | Inr x \<Rightarrow> (case as_float py b of
                    Inl e \<Rightarrow> Inl e
                  | Inr y \<Rightarrow> Inr (PFloat (on_float x y))))"

definition py_add :: "builtins \<Rightarrow> pynum \<Rightarrow> pynum \<Rightarrow> py_error + pynum" where
  "py_add py = binop py (+) (float_add py)"

definition py_sub :: "builtins \<Rightarrow> pynum \<Rightarrow> pynum \<Rightarrow> py_error + pynum" where
  "py_sub py = binop py (-) (float_sub py)"

definition py_mul :: "builtins \<Rightarrow> pynum \<Rightarrow> pynum \<Rightarrow> py_error + pynum" where
  "py_mul py = binop py (*) (float_mul py)"

fun py_truediv :: "builtins \<Rightarrow> pynum \<Rightarrow> pynum \<Rightarrow> py_error + pynum" where
  "py_truediv py (PInt a) (PInt b) =
     (if b = 0 then Inl ZeroDivisionError
      else case int_truediv py a b of Inl e \<Rightarrow> Inl e | Inr q \<Rightarrow> Inr (PFloat q))"
| "py_truediv py a b =
     (case as_float py a of
        Inl e \<Rightarrow> Inl e
      | Inr x \<Rightarrow> (case as_float py b of
                    Inl e \<Rightarrow> Inl e
                  | Inr y \<Rightarrow> if is_zero y then Inl ZeroDivisionError
                             else Inr (PFloat (float_truediv py x y))))"

text \<open>\<^verbatim>\<open>x ** 3\<close>: exact on an integer; on a float the power of floats with exponent 3.0.\<close>

fun py_cube :: "builtins \<Rightarrow> pynum \<Rightarrow> py_error + pynum" where
  "py_cube py (PInt a) = Inr (PInt (a ^ 3))"
| "py_cube py (PFloat x) =
     (case float_pow py x (Finite 3) of Inl e \<Rightarrow> Inl e | Inr y \<Rightarrow> Inr (PFloat y))"

subsection \<open>The value scaler\<close>

text \<open>
  \<^verbatim>\<open>def map_scale(inp, ista, isto, osta, osto):
    return osta + (osto - osta) * ((inp - ista) / (isto - ista))\<close>
  The operands are evaluated from left to right; with \<^verbatim>\<open>from __future__ import division\<close>
  the quotient is a true division.
\<close>

definition map_scale ::
  "builtins \<Rightarrow> pynum \<Rightarrow> pynum \<Rightarrow> pynum \<Rightarrow> pynum \<Rightarrow> pynum \<Rightarrow> py_error + pynum" where
  "map_scale py inp ista isto osta osto =
     (case py_sub py osto osta of Inl e \<Rightarrow> Inl e | Inr d \<Rightarrow>
     (case py_sub py inp ista of Inl e \<Rightarrow> Inl e | Inr n \<Rightarrow>
     (case py_sub py isto ista of Inl e \<Rightarrow> Inl e | Inr m \<Rightarrow>
     (case py_truediv py n m of Inl e \<Rightarrow> Inl e | Inr q \<Rightarrow>
     (case py_mul py d q of Inl e \<Rightarrow> Inl e | Inr p \<Rightarrow>
        py_add py osta p)))))"

subsection \<open>Bindings and the binding store\<close>

text \<open>
  A binding is one TinyDB document. Its fields hold the kinds of value the configuration
  writer stores (strings, an integer for \<^verbatim>\<open>msgNoC\<close>, a number for the scale bounds); a
  key that the document does not have is \<open>None\<close>. Reading a missing key with
  \<^verbatim>\<open>result["k"]\<close> raises \<^verbatim>\<open>KeyError\<close>, reading it with \<^verbatim>\<open>.get("k")\<close> gives Python's
  \<^verbatim>\<open>None\<close>.
\<close>

record binding =
  msg_type :: "string option"
  msgNoC :: "int option"
  input_type :: "string option"
  action :: "string option"
  cmd :: "string option"
  scale_low :: "pynum option"
  scale_high :: "pynum option"
  request :: "string option"
  target :: "string option"

text \<open>
  \<^verbatim>\<open>self.db.search((query.msg_type == type) & (query.msgNoC == note))\<close>: the documents
  that have both fields with these values, in stored order.
\<close>

definition search :: "binding list \<Rightarrow> string \<Rightarrow> int \<Rightarrow> binding list" where
  "search db type note = filter (\<lambda>b. msg_type b = Some type \<and> msgNoC b = Some note) db"

text \<open>\<^verbatim>\<open>not x\<close> for the result of \<^verbatim>\<open>.get\<close> on a string field: missing or empty.\<close>

fun py_not :: "string option \<Rightarrow> bool" where
  "py_not None = True"
| "py_not (Some s) = (s = [])"

text \<open>The request templates, keyed by the tracked command.\<close>

definition toggle_template :: string where
  \<open>toggle_template =
     ''{\<newline>  "request-type": "GetSceneItemProperties",\<newline>  "message-id": "%d",\<newline>  "item": "%s"\<newline>}''\<close>

definition reload_template :: string where
  \<open>reload_template =
     ''{\<newline>  "request-type": "GetSourceSettings",\<newline>  "message-id": "%d",\<newline>  "sourceName": "%s"\<newline>}''\<close>

definition TEMPLATES :: "string \<Rightarrow> string option" where
  "TEMPLATES k =
     (if k = ''ToggleSourceVisibility'' then Some toggle_template
      else if k = ''ReloadBrowserSource'' then Some reload_template
      else None)"

subsection \<open>The handler state and what it transmits\<close>

text \<open>
  What \<^verbatim>\<open>obs_socket.send\<close> is called with. Python's string formatting operator is not
  evaluated: \<open>Request t n x\<close> is the value of \<^verbatim>\<open>t % (n, x)\<close> for a request template
  \<open>t\<close>, and \<open>Filled t v\<close> the value of \<^verbatim>\<open>t % v\<close> for an action template \<open>t\<close> of the
  configuration.
\<close>

datatype outmsg =
    Verbatim string
  | Request string int string
  | Filled string json

record handler =
  action_buffer :: "(int \<times> string \<times> string) list"
  action_counter :: int
  sent :: "outmsg list"

text \<open>\<^verbatim>\<open>__init__\<close>: an empty buffer, the counter at 2.\<close>

definition init :: handler where
  "init = \<lparr>action_buffer = [], action_counter = 2, sent = []\<rparr>"

definition obs_send :: "outmsg \<Rightarrow> handler \<Rightarrow> handler" where
  "obs_send m h = h\<lparr>sent := sent h @ [m]\<rparr>"

datatype result = Returned handler | Raised py_error handler

fun state_of :: "result \<Rightarrow> handler" where
  "state_of (Returned h) = h"
| "state_of (Raised e h) = h"

text \<open>\<^verbatim>\<open>self.obs_socket.send(template % v)\<close> for an action template.\<close>

definition send_filled :: "builtins \<Rightarrow> string \<Rightarrow> json \<Rightarrow> handler \<Rightarrow> result" where
  "send_filled py template v h =
     (case percent_error py template v of
        Some e \<Rightarrow> Raised e h
      | None \<Rightarrow> Returned (obs_send (Filled template v) h))"

subsection \<open>\<^verbatim>\<open>send_action\<close>\<close>

definition send_action :: "binding \<Rightarrow> handler \<Rightarrow> bool \<times> handler" where
  "send_action action_request h =
     (if py_not (action action_request) then (False, h)
      else if py_not (request action_request)
        then (True, obs_send (Verbatim (the (action action_request))) h)
      else if py_not (TEMPLATES (the (request action_request))) then (False, h)
      else if py_not (target action_request) then (False, h)
      else (True,
        h\<lparr>action_buffer := action_buffer h @
              [(action_counter h, the (action action_request), the (request action_request))],
           sent := sent h @
              [Request (the (TEMPLATES (the (request action_request))))
                 (action_counter h) (the (target action_request))],
           action_counter := action_counter h + 1\<rparr>))"

subsection \<open>\<^verbatim>\<open>handle_midi_button\<close>\<close>

text \<open>The loop \<^verbatim>\<open>for result in results: if self.send_action(result): break\<close>.\<close>

fun button_loop :: "binding list \<Rightarrow> handler \<Rightarrow> handler" where
  "button_loop [] h = h"
| "button_loop (r # rs) h =
     (case send_action r h of (ok, h') \<Rightarrow> if ok then h' else button_loop rs h')"

definition handle_midi_button :: "binding list \<Rightarrow> string \<Rightarrow> int \<Rightarrow> handler \<Rightarrow> result" where
  "handle_midi_button db type note h =
     (let results = search db type note
      in if results = [] then Returned h else Returned (button_loop results h))"

subsection \<open>\<^verbatim>\<open>handle_midi_fader\<close>\<close>

text \<open>
  The branch of a \<^verbatim>\<open>fader\<close> binding once its fields are read: the scaled value, then the
  test of the command. \<open>None\<close> is the case of a command that is none of the six, where
  the loop goes on to the next candidate.
\<close>

definition fader_branch ::
  "builtins \<Rightarrow> int \<Rightarrow> string \<Rightarrow> string \<Rightarrow> pynum \<Rightarrow> pynum \<Rightarrow> handler \<Rightarrow> result option" where
  "fader_branch py v act command lo hi h =
     (case map_scale py (PInt v) (PInt 0) (PInt 127) lo hi of
        Inl e \<Rightarrow> Some (Raised e h)
      | Inr scaled \<Rightarrow>
          if command = ''SetSourcePosition'' \<or> command = ''SetSourceScale''
            then Some (send_filled py act (json_of scaled) h)
          else if command = ''SetVolume''
            then (case py_cube py scaled of
                    Inl e \<Rightarrow> Some (Raised e h)
                  | Inr cubed \<Rightarrow> Some (send_filled py act (json_of cubed) h))
          else if command = ''SetSourceRotation'' \<or> command = ''SetTransitionDuration''
                  \<or> command = ''SetSyncOffset''
            then (case py_int py (json_of scaled) of
                    Inl e \<Rightarrow> Some (Raised e h)
                  | Inr n \<Rightarrow> Some (send_filled py act (JInt n) h))
          else None)"

fun fader_loop :: "builtins \<Rightarrow> int \<Rightarrow> binding list \<Rightarrow> handler \<Rightarrow> result" where
  "fader_loop py v [] h = Returned h"
| "fader_loop py v (r # rs) h =
     (case input_type r of
        None \<Rightarrow> Raised KeyError h
      | Some inp \<Rightarrow>
     (case action r of
        None \<Rightarrow> Raised KeyError h
      | Some act \<Rightarrow>
          if inp = ''button'' then
            (if v = 127 then
               (case send_action r h of (ok, h') \<Rightarrow>
                  if \<not> ok then fader_loop py v rs h' else Returned h')
             else Returned h)
          else if inp = ''fader'' then
            (case cmd r of
               None \<Rightarrow> Raised KeyError h
             | Some command \<Rightarrow>
            (case scale_low r of
               None \<Rightarrow> Raised KeyError h
             | Some lo \<Rightarrow>
            (case scale_high r of
               None \<Rightarrow> Raised KeyError h
             | Some hi \<Rightarrow>
            (case fader_branch py v act command lo hi h of
               Some res \<Rightarrow> res
             | None \<Rightarrow> fader_loop py v rs h))))
          else fader_loop py v rs h))"

definition handle_midi_fader ::
  "builtins \<Rightarrow> binding list \<Rightarrow> int \<Rightarrow> int \<Rightarrow> handler \<Rightarrow> result" where
  "handle_midi_fader py db control v h =
     (let results = search db ''control_change'' control
      in if results = [] then Returned h else fader_loop py v results h)"

subsection \<open>\<^verbatim>\<open>handle_obs_message\<close>\<close>

text \<open>
  The reply is taken after \<^verbatim>\<open>json.loads\<close>, as the items of the decoded object.
  \<^verbatim>\<open>v["k"]\<close> on a decoded value: a missing key of an object raises \<^verbatim>\<open>KeyError\<close>, any
  other value does not take a string subscript.
\<close>

fun subscript :: "json \<Rightarrow> string \<Rightarrow> py_error + json" where
  "subscript (JObject kvs) k = (case map_of kvs k of None \<Rightarrow> Inl KeyError | Some v \<Rightarrow> Inr v)"
| "subscript JNull k = Inl TypeError"
| "subscript (JBool b) k = Inl TypeError"
| "subscript (JInt n) k = Inl TypeError"
| "subscript (JFloat x) k = Inl TypeError"
| "subscript (JString s) k = Inl TypeError"
| "subscript (JArray xs) k = Inl TypeError"

text \<open>
  \<^verbatim>\<open>source[0:-1] if source[-1] == '#' else source + '#'\<close>. On the empty string (and the
  empty list) \<^verbatim>\<open>source[-1]\<close> raises \<^verbatim>\<open>IndexError\<close>; on an object it looks the key
  \<open>-1\<close> up; a list whose last element is not the marker cannot be added to a string.
\<close>

fun toggle_marker :: "json \<Rightarrow> py_error + json" where
  "toggle_marker (JString s) =
     (if s = [] then Inl IndexError
      else if last s = CHR ''#'' then Inr (JString (butlast s))
      else Inr (JString (s @ ''#'')))"
| "toggle_marker (JArray xs) =
     (if xs = [] then Inl IndexError
      else if last xs = JString ''#'' then Inr (JArray (butlast xs))
      else Inl TypeError)"
| "toggle_marker (JObject kvs) = Inl KeyError"
| "toggle_marker JNull = Inl TypeError"
| "toggle_marker (JBool b) = Inl TypeError"
| "toggle_marker (JInt n) = Inl TypeError"
| "toggle_marker (JFloat x) = Inl TypeError"

text \<open>
  The body of the loop once the entry's id equals the reply's: the follow-up of the
  entry's kind is sent, then the entry is removed from the buffer.
\<close>

definition follow_up ::
  "builtins \<Rightarrow> (string \<times> json) list \<Rightarrow> int \<times> string \<times> string \<Rightarrow> handler \<Rightarrow> result" where
  "follow_up py payload entry h =
     (case entry of (buffered_id, template, kind) \<Rightarrow>
        let forget = (\<lambda>h'. h'\<lparr>action_buffer := remove1 entry (action_buffer h')\<rparr>)
        in
        if kind = ''ToggleSourceVisibility'' then
          (case map_of payload ''visible'' of
             None \<Rightarrow> Raised KeyError h
           | Some visible \<Rightarrow>
               (let invisible = (if truthy visible then ''false'' else ''true'')
                in case percent_error py template (JString invisible) of
                     Some e \<Rightarrow> Raised e h
                   | None \<Rightarrow> Returned (forget (obs_send (Filled template (JString invisible)) h))))
        else if kind = ''ReloadBrowserSource'' then
          (case map_of payload ''sourceSettings'' of
             None \<Rightarrow> Raised KeyError h
           | Some settings \<Rightarrow>
          (case subscript settings ''url'' of
             Inl e \<Rightarrow> Raised e h
           | Inr source \<Rightarrow>
          (case toggle_marker source of
             Inl e \<Rightarrow> Raised e h
           | Inr toggled \<Rightarrow>
               (case percent_error py template toggled of
                  Some e \<Rightarrow> Raised e h
                | None \<Rightarrow> Returned (forget (obs_send (Filled template toggled) h))))))
        else Returned (forget h))"

fun obs_loop ::
  "builtins \<Rightarrow> (string \<times> json) list \<Rightarrow> json \<Rightarrow> (int \<times> string \<times> string) list \<Rightarrow> handler
     \<Rightarrow> result" where
  "obs_loop py payload message_id [] h = Returned h"
| "obs_loop py payload message_id (entry # rest) h =
     (case py_int py message_id of
        Inl e \<Rightarrow> Raised e h
      | Inr n \<Rightarrow>
          if fst entry \<noteq> n then obs_loop py payload message_id rest h
          else follow_up py payload entry h)"

definition handle_obs_message :: "builtins \<Rightarrow> (string \<times> json) list \<Rightarrow> handler \<Rightarrow> result" where
  "handle_obs_message py payload h =
     (if map_of payload ''error'' \<noteq> None then Returned h
      else case map_of payload ''message-id'' of
             None \<Rightarrow> Raised KeyError h
           | Some message_id \<Rightarrow> obs_loop py payload message_id (action_buffer h) h)"

subsection \<open>Sequences of events\<close>

text \<open>A decoded MIDI message, by its \<^verbatim>\<open>type\<close>, and \<^verbatim>\<open>handle_midi_input\<close>.\<close>

datatype midi_message =
    Note_on int
  | Program_change int
  | Control_change int int
  | Other_message

fun handle_midi_input :: "builtins \<Rightarrow> binding list \<Rightarrow> midi_message \<Rightarrow> handler \<Rightarrow> result" where
  "handle_midi_input py db (Note_on note) h = handle_midi_button db ''note_on'' note h"
| "handle_midi_input py db (Program_change program) h =
     handle_midi_button db ''program_change'' program h"
| "handle_midi_input py db (Control_change control v) h = handle_midi_fader py db control v h"
| "handle_midi_input py db Other_message h = Returned h"

text \<open>
  The two callbacks, one event at a time. An exception leaves the callback; the handler
  object stays as it was at that point and receives the next event.
\<close>

datatype event = Midi midi_message | Obs "(string \<times> json) list"

fun step :: "builtins \<Rightarrow> binding list \<Rightarrow> event \<Rightarrow> handler \<Rightarrow> result" where
  "step py db (Midi m) h = handle_midi_input py db m h"
| "step py db (Obs payload) h = handle_obs_message py payload h"

fun run :: "builtins \<Rightarrow> binding list \<Rightarrow> event list \<Rightarrow> handler \<Rightarrow> handler" where
  "run py db [] h = h"
| "run py db (e # es) h = run py db es (state_of (step py db e h))"

text \<open>The correlation ids of the requests transmitted, in the order of transmission.\<close>

fun request_ids :: "outmsg list \<Rightarrow> int list" where
  "request_ids [] = []"
| "request_ids (Request t n x # ms) = n # request_ids ms"
| "request_ids (Verbatim s # ms) = request_ids ms"
| "request_ids (Filled t v # ms) = request_ids ms"

subsection \<open>The counter along a run\<close>

text \<open>
  \<open>advances h h'\<close>: from \<open>h\<close> to \<open>h'\<close> the requests transmitted carry the consecutive
  ids from the counter of \<open>h\<close> on, and the counter of \<open>h'\<close> is the next one.
  \<open>pending_ok h\<close>: the ids of the buffered entries increase along the buffer and lie
  between 2 and the counter.
\<close>

definition advances :: "handler \<Rightarrow> handler \<Rightarrow> bool" where
  "advances h h' \<longleftrightarrow>
     (\<exists>k. action_counter h' = action_counter h + int k
        \<and> request_ids (sent h') = request_ids (sent h) @ map (\<lambda>i. action_counter h + int i) [0..<k])"

definition pending_ok :: "handler \<Rightarrow> bool" where
  "pending_ok h \<longleftrightarrow>
     sorted_wrt (\<lambda>a b. fst a < fst b) (action_buffer h)
     \<and> (\<forall>e\<in>set (action_buffer h). 2 \<le> fst e \<and> fst e < action_counter h)"

subsection \<open>Instances used in the examples\<close>

text \<open>
  A document that has the two fields of the search and no other, to which the examples
  add fields. An instance of the built-in operations: every template takes its value;
  \<^verbatim>\<open>int\<close> reads a string of one to nine decimal digits; the operations on floats return
  the exact result on finite operands. The examples use it where Python gives the same
  results: there the exact result is a float.
\<close>

definition keyed :: "string \<Rightarrow> int \<Rightarrow> binding" where
  "keyed type note =
     \<lparr>msg_type = Some type, msgNoC = Some note, input_type = None, action = None, cmd = None,
      scale_low = None, scale_high = None, request = None, target = None\<rparr>"

definition is_digit :: "char \<Rightarrow> bool" where
  "is_digit c = (c \<in> set ''0123456789'')"

definition decimal :: "string \<Rightarrow> py_error + int" where
  "decimal s =
     (if s \<noteq> [] \<and> length s \<le> 9 \<and> list_all is_digit s
      then Inr (foldl (\<lambda>n c. 10 * n + (of_char c - 48)) 0 s)
      else Inl ValueError)"

fun exact :: "(rat \<Rightarrow> rat \<Rightarrow> rat) \<Rightarrow> pyfloat \<Rightarrow> pyfloat \<Rightarrow> pyfloat" where
  "exact f (Finite x) (Finite y) = Finite (f x y)"
| "exact f x y = NaN"

fun exact_pow :: "pyfloat \<Rightarrow> pyfloat \<Rightarrow> py_error + pyfloat" where
  "exact_pow (Finite x) (Finite y) = (if y = 3 then Inr (Finite (x ^ 3)) else Inr NaN)"
| "exact_pow x y = Inr NaN"

definition fits :: builtins where
  "fits =
     \<lparr>percent_error = (\<lambda>template v. None),
      int_of_str = decimal,
      int_to_float = (\<lambda>n. Inr (Finite (of_int n))),
      int_truediv = (\<lambda>a b. Inr (Finite (of_int a / of_int b))),
      float_add = exact (+),
      float_sub = exact (-),
      float_mul = exact (*),
      float_truediv = exact (/),
      float_pow = exact_pow\<rparr>"

section \<open>The instance of the examples\<close>

lemma fits_simps:
  "percent_error fits t v = None"
  "int_of_str fits s = decimal s"
  "int_to_float fits n = Inr (Finite (of_int n))"
  "int_truediv fits a b = Inr (Finite (of_int a / of_int b))"
  "float_add fits = exact (+)"
  "float_sub fits = exact (-)"
  "float_mul fits = exact (*)"
  "float_truediv fits = exact (/)"
  "float_pow fits = exact_pow"
  by (simp_all add: fits_def)

section \<open>\<^verbatim>\<open>send_action\<close>\<close>

lemma TEMPLATES_nonempty: "TEMPLATES k = Some t \<Longrightarrow> t \<noteq> []"
  by (auto simp: TEMPLATES_def toggle_template_def reload_template_def split: if_splits)

lemma templates_nonempty: "toggle_template \<noteq> []" "reload_template \<noteq> []"
  by (simp_all add: toggle_template_def reload_template_def)

lemma py_not_TEMPLATES: "py_not (TEMPLATES k) \<longleftrightarrow> TEMPLATES k = None"
  by (cases "TEMPLATES k") (auto dest: TEMPLATES_nonempty)

lemma send_action_fail: "\<not> fst (send_action b h) \<Longrightarrow> send_action b h = (False, h)"
  by (simp add: send_action_def split: if_splits)

lemma send_action_ok_sent:
  "fst (send_action b h) \<Longrightarrow> \<exists>m. sent (snd (send_action b h)) = sent h @ [m]"
  by (simp add: send_action_def obs_send_def split: if_splits)

text \<open>
  C3. \<open>send_action\<close> returns false and transmits nothing (the handler is unchanged) when
  the action is missing or empty, when the named request has no template, or when the
  target is missing or empty. With an action and no request it transmits the action
  string as it is and returns true. With an action, a request that has a template and a
  target it takes the counter's value as the correlation id, appends the entry
  (id, action, request) to the buffer, transmits the request template filled with the
  id and the target, advances the counter and returns true.
\<close>

theorem send_action_contract:
  "(py_not (action b) \<longrightarrow> send_action b h = (False, h))
   \<and> (action b = Some a \<and> a \<noteq> [] \<and> py_not (request b) \<longrightarrow>
        send_action b h = (True, h\<lparr>sent := sent h @ [Verbatim a]\<rparr>))
   \<and> (action b = Some a \<and> a \<noteq> [] \<and> request b = Some r \<and> r \<noteq> [] \<and> TEMPLATES r = None \<longrightarrow>
        send_action b h = (False, h))
   \<and> (action b = Some a \<and> a \<noteq> [] \<and> request b = Some r \<and> r \<noteq> [] \<and> py_not (target b) \<longrightarrow>
        send_action b h = (False, h))
   \<and> (action b = Some a \<and> a \<noteq> [] \<and> request b = Some r \<and> r \<noteq> [] \<and> TEMPLATES r = Some t
        \<and> target b = Some x \<and> x \<noteq> [] \<longrightarrow>
        send_action b h =
          (True, h\<lparr>action_buffer := action_buffer h @ [(action_counter h, a, r)],
                    sent := sent h @ [Request t (action_counter h) x],
                    action_counter := action_counter h + 1\<rparr>))"
  by (auto simp: send_action_def obs_send_def py_not_TEMPLATES dest: TEMPLATES_nonempty)

section \<open>\<^verbatim>\<open>handle_midi_button\<close>\<close>

lemma button_loop_skip:
  "\<forall>x\<in>set pre. \<not> fst (send_action x h) \<Longrightarrow> button_loop (pre @ rs) h = button_loop rs h"
  by (induction pre) (auto dest: send_action_fail)

lemma button_loop_first:
  "fst (send_action b h) \<Longrightarrow> button_loop (b # rs) h = snd (send_action b h)"
  by (cases "send_action b h") simp

text \<open>
  C2. A button-like event (\<^verbatim>\<open>note_on\<close> or \<^verbatim>\<open>program_change\<close>, through
  \<open>handle_midi_input\<close>) with no binding returns with the handler unchanged: nothing is
  transmitted and nothing is raised. With candidates \<open>pre @ b # post\<close>, where
  \<open>send_action\<close> fails on every binding of \<open>pre\<close> and succeeds on \<open>b\<close>, the handler is
  left as \<open>send_action b\<close> alone leaves it, whatever \<open>post\<close> is: exactly one message, that
  of \<open>b\<close>, has been transmitted. When \<open>send_action\<close> fails on every candidate the handler
  is unchanged.
\<close>

theorem handle_midi_button_fallback:
  "(m = Note_on n \<and> type = ''note_on'' \<or> m = Program_change n \<and> type = ''program_change'') \<longrightarrow>
     (search db type n = [] \<longrightarrow> handle_midi_input fmt_error db m h = Returned h)
   \<and> (search db type n = pre @ b # post \<and> (\<forall>x\<in>set pre. \<not> fst (send_action x h))
        \<and> fst (send_action b h) \<longrightarrow>
        handle_midi_input fmt_error db m h = Returned (snd (send_action b h))
        \<and> (\<exists>msg. sent (snd (send_action b h)) = sent h @ [msg]))
   \<and> ((\<forall>x\<in>set (search db type n). \<not> fst (send_action x h)) \<longrightarrow>
        handle_midi_input fmt_error db m h = Returned h)"
proof (intro impI conjI)
  assume m: "m = Note_on n \<and> type = ''note_on'' \<or> m = Program_change n \<and> type = ''program_change''"
  then have eq: "handle_midi_input fmt_error db m h = handle_midi_button db type n h"
    by auto
  {
    assume "search db type n = []"
    then show "handle_midi_input fmt_error db m h = Returned h"
      by (simp add: eq handle_midi_button_def)
  next
    assume a: "search db type n = pre @ b # post \<and> (\<forall>x\<in>set pre. \<not> fst (send_action x h))
        \<and> fst (send_action b h)"
    then have "button_loop (search db type n) h = snd (send_action b h)"
      by (simp add: button_loop_skip button_loop_first del: button_loop.simps)
    with a show "handle_midi_input fmt_error db m h = Returned (snd (send_action b h))"
      by (simp add: eq handle_midi_button_def)
    from a show "\<exists>msg. sent (snd (send_action b h)) = sent h @ [msg]"
      by (simp add: send_action_ok_sent)
  next
    assume "\<forall>x\<in>set (search db type n). \<not> fst (send_action x h)"
    then have "button_loop (search db type n @ []) h = button_loop [] h"
      by (rule button_loop_skip)
    then show "handle_midi_input fmt_error db m h = Returned h"
      by (simp add: eq handle_midi_button_def Let_def)
  }
qed

theorem send_action_contract_witness:
  "send_action (keyed ''note_on'' 60) init = (False, init)
   \<and> send_action ((keyed ''note_on'' 60)\<lparr>action := Some ''go''\<rparr>) init
       = (True, init\<lparr>sent := [Verbatim ''go'']\<rparr>)
   \<and> send_action ((keyed ''note_on'' 60)\<lparr>action := Some ''go'', request := Some ''Nothing''\<rparr>) init
       = (False, init)
   \<and> send_action ((keyed ''note_on'' 60)
         \<lparr>action := Some ''go'', request := Some ''ReloadBrowserSource''\<rparr>) init
       = (False, init)
   \<and> send_action ((keyed ''note_on'' 60)
         \<lparr>action := Some ''tpl%s'', request := Some ''ReloadBrowserSource'', target := Some ''cam''\<rparr>)
         init
       = (True, \<lparr>action_buffer = [(2, ''tpl%s'', ''ReloadBrowserSource'')], action_counter = 3,
                 sent = [Request reload_template 2 ''cam'']\<rparr>)"
  using
    send_action_contract [of "keyed ''note_on'' 60" init]
    send_action_contract [of "(keyed ''note_on'' 60)\<lparr>action := Some ''go''\<rparr>" init "''go''"]
    send_action_contract [of "(keyed ''note_on'' 60)\<lparr>action := Some ''go'', request := Some ''Nothing''\<rparr>"
      init "''go''" "''Nothing''"]
    send_action_contract [of "(keyed ''note_on'' 60)
         \<lparr>action := Some ''go'', request := Some ''ReloadBrowserSource''\<rparr>" init "''go''"
      "''ReloadBrowserSource''"]
    send_action_contract [of "(keyed ''note_on'' 60)
         \<lparr>action := Some ''tpl%s'', request := Some ''ReloadBrowserSource'', target := Some ''cam''\<rparr>"
      init "''tpl%s''" "''ReloadBrowserSource''" reload_template "''cam''"]
  by (simp add: keyed_def init_def TEMPLATES_def)

theorem handle_midi_button_fallback_witness:
  "handle_midi_input fits
     [keyed ''note_on'' 60, (keyed ''note_on'' 60)\<lparr>action := Some ''go''\<rparr>,
      (keyed ''note_on'' 60)\<lparr>action := Some ''later''\<rparr>]
     (Note_on 60) init = Returned (init\<lparr>sent := [Verbatim ''go'']\<rparr>)
   \<and> handle_midi_input fits [keyed ''note_on'' 60] (Program_change 60) init = Returned init
   \<and> handle_midi_input fits [keyed ''note_on'' 60] (Note_on 60) init = Returned init"
  using
    handle_midi_button_fallback [of "Note_on 60" 60 "''note_on''"
      "[keyed ''note_on'' 60, (keyed ''note_on'' 60)\<lparr>action := Some ''go''\<rparr>,
        (keyed ''note_on'' 60)\<lparr>action := Some ''later''\<rparr>]"
      fits init "[keyed ''note_on'' 60]" "(keyed ''note_on'' 60)\<lparr>action := Some ''go''\<rparr>"
      "[(keyed ''note_on'' 60)\<lparr>action := Some ''later''\<rparr>]"]
    handle_midi_button_fallback [of "Program_change 60" 60 "''program_change''"
      "[keyed ''note_on'' 60]" fits init]
    handle_midi_button_fallback [of "Note_on 60" 60 "''note_on''"
      "[keyed ''note_on'' 60]" fits init]
  by (simp add: keyed_def init_def search_def send_action_def obs_send_def)

section \<open>\<^verbatim>\<open>handle_midi_fader\<close>\<close>

text \<open>
  A candidate of kind \<^verbatim>\<open>button\<close> that has the \<^verbatim>\<open>action\<close> field, on a fader event: below
  the maximum 127 nothing happens and the scan ends; at 127 \<open>send_action\<close> is called,
  the scan ends when it succeeds and goes on to the next candidate when it fails.
\<close>

lemma fader_button_threshold:
  assumes "input_type r = Some ''button''" and "action r = Some a"
  shows "fader_loop py v (r # rs) h =
           (if v = 127
            then (if fst (send_action r h) then Returned (snd (send_action r h))
                  else fader_loop py v rs h)
            else Returned h)"
proof (cases "fst (send_action r h)")
  case True
  with assms show ?thesis
    by (cases "send_action r h") simp
next
  case False
  then have "send_action r h = (False, h)"
    by (rule send_action_fail)
  with assms show ?thesis
    by simp
qed

text \<open>
  C1. The threshold of a \<^verbatim>\<open>button\<close> binding on a fader event holds for a binding that has
  the \<^verbatim>\<open>action\<close> field (\<open>fader_button_threshold\<close>). For a candidate without that field
  the button path and the fader path differ: \<open>handle_midi_button\<close> passes it to
  \<open>send_action\<close>, which reports failure, and goes on to the next candidate;
  \<open>handle_midi_fader\<close> reads \<^verbatim>\<open>result["action"]\<close> before it looks at the kind and raises
  \<^verbatim>\<open>KeyError\<close>, at the maximum and below it, so the next candidate is never tried.
\<close>

theorem fader_button_missing_action:
  "handle_midi_input fits
     [(keyed ''control_change'' 7)\<lparr>input_type := Some ''button''\<rparr>,
      (keyed ''control_change'' 7)\<lparr>input_type := Some ''button'', action := Some ''go''\<rparr>]
     (Control_change 7 127) init = Raised KeyError init
   \<and> handle_midi_input fits
     [(keyed ''control_change'' 7)\<lparr>input_type := Some ''button''\<rparr>,
      (keyed ''control_change'' 7)\<lparr>input_type := Some ''button'', action := Some ''go''\<rparr>]
     (Control_change 7 64) init = Raised KeyError init
   \<and> handle_midi_input fits
     [(keyed ''note_on'' 7)\<lparr>input_type := Some ''button''\<rparr>,
      (keyed ''note_on'' 7)\<lparr>input_type := Some ''button'', action := Some ''go''\<rparr>]
     (Note_on 7) init = Returned (init\<lparr>sent := [Verbatim ''go'']\<rparr>)"
  by (simp add: keyed_def init_def search_def handle_midi_fader_def handle_midi_button_def
      send_action_def obs_send_def)

section \<open>The fader branch\<close>






section \<open>\<^verbatim>\<open>handle_obs_message\<close>\<close>

lemma obs_loop_no_match:
  "py_int py mid = Inr n \<Longrightarrow> n \<notin> fst ` set es \<Longrightarrow> obs_loop py payload mid es h = Returned h"
  by (induction es) auto

lemma obs_loop_first_match:
  "py_int py mid = Inr n \<Longrightarrow> n \<notin> fst ` set pre \<Longrightarrow>
     obs_loop py payload mid (pre @ (n, t, k) # post) h
       = follow_up py payload (n, t, k) h"
  by (induction pre) auto

lemma remove1_first_match:
  "n \<notin> fst ` set pre \<Longrightarrow> remove1 (n, t, k) (pre @ (n, t, k) # post) = pre @ post"
  by (force simp: remove1_append)



text \<open>
  C7, as stated, fails for a foreign reply: a \<^verbatim>\<open>message-id\<close> that is not a number, here
  \<^verbatim>\<open>abc\<close>, is the id of no pending entry, and with an entry in the buffer
  \<^verbatim>\<open>int(payload["message-id"])\<close> raises \<^verbatim>\<open>ValueError\<close> out of the handler.
\<close>

theorem foreign_reply_raises:
  "handle_obs_message fits [(''message-id'', JString ''abc'')]
     \<lparr>action_buffer = [(2, ''tpl%s'', ''ReloadBrowserSource'')], action_counter = 3,
      sent = [Request reload_template 2 ''cam'']\<rparr>
     = Raised ValueError
         \<lparr>action_buffer = [(2, ''tpl%s'', ''ReloadBrowserSource'')], action_counter = 3,
          sent = [Request reload_template 2 ''cam'']\<rparr>"
  by (simp add: handle_obs_message_def fits_simps decimal_def is_digit_def)

text \<open>
  C7, amended. The handler is left as it is, with nothing transmitted and no entry
  removed, by a reply with a top-level \<^verbatim>\<open>error\<close> key (the entry that asked stays in the
  buffer), by a reply without one whose \<^verbatim>\<open>message-id\<close> is, by \<^verbatim>\<open>int\<close>, an integer that is
  the id of no buffered entry, and by a reply with a \<^verbatim>\<open>message-id\<close> when the buffer is
  empty. A reply without \<^verbatim>\<open>error\<close> and without \<^verbatim>\<open>message-id\<close> raises \<^verbatim>\<open>KeyError\<close>, and
  one whose \<^verbatim>\<open>message-id\<close> \<^verbatim>\<open>int\<close> rejects raises that exception when the buffer is not
  empty; the handler is unchanged then too.
\<close>

theorem resolve_ignored_integer_id:
  "(map_of payload ''error'' \<noteq> None \<longrightarrow> handle_obs_message py payload h = Returned h)
   \<and> (map_of payload ''error'' = None \<and> map_of payload ''message-id'' = Some mid
        \<and> py_int py mid = Inr n \<and> n \<notin> fst ` set (action_buffer h) \<longrightarrow>
        handle_obs_message py payload h = Returned h)
   \<and> (map_of payload ''error'' = None \<and> map_of payload ''message-id'' = Some mid
        \<and> action_buffer h = [] \<longrightarrow>
        handle_obs_message py payload h = Returned h)
   \<and> (map_of payload ''error'' = None \<and> map_of payload ''message-id'' = Some mid
        \<and> py_int py mid = Inl e \<and> action_buffer h \<noteq> [] \<longrightarrow>
        handle_obs_message py payload h = Raised e h)
   \<and> (map_of payload ''error'' = None \<and> map_of payload ''message-id'' = None \<longrightarrow>
        handle_obs_message py payload h = Raised KeyError h)"
proof -
  have "py_int py mid = Inl e \<Longrightarrow> action_buffer h \<noteq> [] \<Longrightarrow>
          obs_loop py payload mid (action_buffer h) h = Raised e h"
    by (cases "action_buffer h") simp_all
  then show ?thesis
    by (auto simp: handle_obs_message_def obs_loop_no_match)
qed

theorem resolve_ignored_integer_id_witness:
  "handle_obs_message fits [(''error'', JString ''no such source''), (''message-id'', JString ''5'')]
     \<lparr>action_buffer = [(5, ''tpl%s'', ''ReloadBrowserSource'')], action_counter = 6, sent = []\<rparr>
     = Returned \<lparr>action_buffer = [(5, ''tpl%s'', ''ReloadBrowserSource'')], action_counter = 6,
                  sent = []\<rparr>
   \<and> handle_obs_message fits [(''message-id'', JString ''4''), (''visible'', JBool True)]
     \<lparr>action_buffer = [(5, ''tpl%s'', ''ReloadBrowserSource'')], action_counter = 6, sent = []\<rparr>
     = Returned \<lparr>action_buffer = [(5, ''tpl%s'', ''ReloadBrowserSource'')], action_counter = 6,
                  sent = []\<rparr>
   \<and> handle_obs_message fits [(''message-id'', JString ''abc'')] init = Returned init
   \<and> handle_obs_message fits [(''message-id'', JNull)]
     \<lparr>action_buffer = [(5, ''tpl%s'', ''ReloadBrowserSource'')], action_counter = 6, sent = []\<rparr>
     = Raised TypeError
         \<lparr>action_buffer = [(5, ''tpl%s'', ''ReloadBrowserSource'')], action_counter = 6, sent = []\<rparr>
   \<and> handle_obs_message fits [(''update-type'', JString ''SwitchScenes'')]
     \<lparr>action_buffer = [(5, ''tpl%s'', ''ReloadBrowserSource'')], action_counter = 6, sent = []\<rparr>
     = Raised KeyError
         \<lparr>action_buffer = [(5, ''tpl%s'', ''ReloadBrowserSource'')], action_counter = 6, sent = []\<rparr>"
  using
    resolve_ignored_integer_id [where py = fits
      and payload = "[(''error'', JString ''no such source''), (''message-id'', JString ''5'')]"
      and h = "\<lparr>action_buffer = [(5, ''tpl%s'', ''ReloadBrowserSource'')], action_counter = 6,
                sent = []\<rparr>"]
    resolve_ignored_integer_id [where py = fits
      and payload = "[(''message-id'', JString ''4''), (''visible'', JBool True)]"
      and h = "\<lparr>action_buffer = [(5, ''tpl%s'', ''ReloadBrowserSource'')], action_counter = 6,
                sent = []\<rparr>"
      and mid = "JString ''4''" and n = 4]
    resolve_ignored_integer_id [where py = fits
      and payload = "[(''message-id'', JString ''abc'')]" and h = init
      and mid = "JString ''abc''"]
    resolve_ignored_integer_id [where py = fits
      and payload = "[(''message-id'', JNull)]"
      and h = "\<lparr>action_buffer = [(5, ''tpl%s'', ''ReloadBrowserSource'')], action_counter = 6,
                sent = []\<rparr>"
      and mid = JNull and e = TypeError]
    resolve_ignored_integer_id [where py = fits
      and payload = "[(''update-type'', JString ''SwitchScenes'')]"
      and h = "\<lparr>action_buffer = [(5, ''tpl%s'', ''ReloadBrowserSource'')], action_counter = 6,
                sent = []\<rparr>"]
  by (simp add: init_def fits_simps decimal_def is_digit_def)

text \<open>
  A reply without \<^verbatim>\<open>error\<close> whose \<^verbatim>\<open>message-id\<close> is the id of a buffered entry of kind
  \<^verbatim>\<open>ToggleSourceVisibility\<close> (the first with that id): the entry's template filled with
  the literal \<^verbatim>\<open>false\<close> when \<^verbatim>\<open>visible\<close> is true and \<^verbatim>\<open>true\<close> when it is not is
  transmitted, and the entry is removed.
\<close>

lemma resolve_toggle:
  assumes "map_of payload ''error'' = None" and "map_of payload ''message-id'' = Some mid"
    and "py_int py mid = Inr n"
    and "action_buffer h = pre @ (n, t, ''ToggleSourceVisibility'') # post"
    and "n \<notin> fst ` set pre"
    and "map_of payload ''visible'' = Some visible"
    and "invisible = (if truthy visible then ''false'' else ''true'')"
    and "percent_error py t (JString invisible) = None"
  shows "handle_obs_message py payload h
           = Returned (h\<lparr>sent := sent h @ [Filled t (JString invisible)],
                          action_buffer := pre @ post\<rparr>)"
proof -
  have "handle_obs_message py payload h
          = follow_up py payload (n, t, ''ToggleSourceVisibility'') h"
    using assms(1-5) by (simp add: handle_obs_message_def obs_loop_first_match)
  also have "\<dots> = Returned (h\<lparr>sent := sent h @ [Filled t (JString invisible)],
                          action_buffer := pre @ post\<rparr>)"
    using assms(4-8) by (simp add: follow_up_def obs_send_def remove1_first_match)
  finally show ?thesis .
qed

text \<open>
  The same for an entry of kind \<^verbatim>\<open>ReloadBrowserSource\<close> and a reply whose
  \<^verbatim>\<open>sourceSettings.url\<close> is a non-empty string: the url without its last character when
  that is \<^verbatim>\<open>#\<close>, with \<^verbatim>\<open>#\<close> appended otherwise.
\<close>

lemma resolve_reload:
  assumes "map_of payload ''error'' = None" and "map_of payload ''message-id'' = Some mid"
    and "py_int py mid = Inr n"
    and "action_buffer h = pre @ (n, t, ''ReloadBrowserSource'') # post"
    and "n \<notin> fst ` set pre"
    and "map_of payload ''sourceSettings'' = Some (JObject settings)"
    and "map_of settings ''url'' = Some (JString url)" and "url \<noteq> []"
    and "toggled = (if last url = CHR ''#'' then butlast url else url @ ''#'')"
    and "percent_error py t (JString toggled) = None"
  shows "handle_obs_message py payload h
           = Returned (h\<lparr>sent := sent h @ [Filled t (JString toggled)],
                          action_buffer := pre @ post\<rparr>)"
proof -
  have "handle_obs_message py payload h
          = follow_up py payload (n, t, ''ReloadBrowserSource'') h"
    using assms(1-5) by (simp add: handle_obs_message_def obs_loop_first_match)
  also have "\<dots> = Returned (h\<lparr>sent := sent h @ [Filled t (JString toggled)],
                          action_buffer := pre @ post\<rparr>)"
    using assms(4-10)
    by (cases "last url = CHR ''#''") (simp_all add: follow_up_def obs_send_def remove1_first_match)
  finally show ?thesis .
qed

text \<open>The round trip of the specification: entry 5, reply 5 with url \<^verbatim>\<open>http://x#\<close>.\<close>

lemma resolve_reload_round_trip:
  "handle_obs_message fits
     [(''message-id'', JString ''5''), (''sourceSettings'', JObject [(''url'', JString ''http://x#'')])]
     \<lparr>action_buffer = [(5, ''tpl%s'', ''ReloadBrowserSource'')], action_counter = 6, sent = []\<rparr>
   = Returned \<lparr>action_buffer = [], action_counter = 6,
                sent = [Filled ''tpl%s'' (JString ''http://x'')]\<rparr>"
  using resolve_reload [of
     "[(''message-id'', JString ''5''), (''sourceSettings'', JObject [(''url'', JString ''http://x#'')])]"
     "JString ''5''" fits 5
     "\<lparr>action_buffer = [(5, ''tpl%s'', ''ReloadBrowserSource'')], action_counter = 6, sent = []\<rparr>"
     "[]" "''tpl%s''" "[]" "[(''url'', JString ''http://x#'')]" "''http://x#''" "''http://x''"]
  by (simp add: fits_simps decimal_def is_digit_def)

lemma resolve_toggle_example:
  "handle_obs_message fits [(''message-id'', JString ''7''), (''visible'', JBool True)]
     \<lparr>action_buffer = [(7, ''show %s'', ''ToggleSourceVisibility'')], action_counter = 8, sent = []\<rparr>
   = Returned \<lparr>action_buffer = [], action_counter = 8,
                sent = [Filled ''show %s'' (JString ''false'')]\<rparr>"
  using resolve_toggle [of
     "[(''message-id'', JString ''7''), (''visible'', JBool True)]" "JString ''7''" fits 7
     "\<lparr>action_buffer = [(7, ''show %s'', ''ToggleSourceVisibility'')], action_counter = 8, sent = []\<rparr>"
     "[]" "''show %s''" "[]" "JBool True" "''false''"]
  by (simp add: fits_simps decimal_def is_digit_def)

text \<open>
  C6. The follow-up of a matching reply is as stated for \<^verbatim>\<open>ToggleSourceVisibility\<close>
  (\<open>resolve_toggle\<close>) and, for \<^verbatim>\<open>ReloadBrowserSource\<close>, for every non-empty url
  (\<open>resolve_reload\<close>). On the empty url, which has no marker, so that the marker is to
  be appended, \<^verbatim>\<open>source[-1]\<close> raises \<^verbatim>\<open>IndexError\<close>: nothing is transmitted and the
  entry stays in the buffer. Here the entry is the one a \<^verbatim>\<open>note_on\<close> event has just
  registered, with id 2.
\<close>

theorem resolve_reload_empty_url:
  "run fits
     [(keyed ''note_on'' 60)\<lparr>action := Some ''tpl%s'', request := Some ''ReloadBrowserSource'',
        target := Some ''cam''\<rparr>]
     [Midi (Note_on 60)] init
     = \<lparr>action_buffer = [(2, ''tpl%s'', ''ReloadBrowserSource'')], action_counter = 3,
        sent = [Request reload_template 2 ''cam'']\<rparr>
   \<and> handle_obs_message fits
     [(''message-id'', JString ''2''), (''sourceSettings'', JObject [(''url'', JString [])])]
     \<lparr>action_buffer = [(2, ''tpl%s'', ''ReloadBrowserSource'')], action_counter = 3,
      sent = [Request reload_template 2 ''cam'']\<rparr>
     = Raised IndexError
         \<lparr>action_buffer = [(2, ''tpl%s'', ''ReloadBrowserSource'')], action_counter = 3,
          sent = [Request reload_template 2 ''cam'']\<rparr>"
  by (simp add: keyed_def init_def search_def handle_midi_button_def send_action_def
      TEMPLATES_def templates_nonempty handle_obs_message_def follow_up_def
      fits_simps decimal_def is_digit_def)

end
